theory Spec2Isabelle
  imports Main
begin

section \<open>Values of the Python program\<close>

subsection \<open>Parsed JSON\<close>

text \<open>
  What Python's JSON parser delivers: \<open>None\<close>, a bool, an int, a float, a str, a list
  or a dict. A float is kept as the text of its literal and is never computed with. A dict
  is the list of its items in insertion order, its keys distinct as in Python; lookup is
  \<open>map_of\<close>.
\<close>

datatype json =
    JNull
  | JBool bool
  | JInt int
  | JFloat string
  | JStr string
  | JArr "json list"
  | JObj "(string \<times> json) list"

text \<open>\<open>type(v).__name__\<close>, as it appears in the interpreter's error messages.\<close>

fun type_name :: "json \<Rightarrow> string" where
  "type_name JNull = ''NoneType''"
| "type_name (JBool b) = ''bool''"
| "type_name (JInt i) = ''int''"
| "type_name (JFloat f) = ''float''"
| "type_name (JStr s) = ''str''"
| "type_name (JArr xs) = ''list''"
| "type_name (JObj kvs) = ''dict''"

subsection \<open>Decimal text of an integer\<close>

text \<open>\<open>str(n)\<close> for a Python int, which is what an f-string does with one.\<close>

definition digit_char :: "nat \<Rightarrow> char" where
  "digit_char d = ''0123456789'' ! d"

fun str_nat :: "nat \<Rightarrow> string" where
  "str_nat n = (if n < 10 then [digit_char n] else str_nat (n div 10) @ [digit_char (n mod 10)])"

declare str_nat.simps [simp del]

definition str_int :: "int \<Rightarrow> string" where
  "str_int i = (if i < 0 then CHR ''-'' # str_nat (nat (- i)) else str_nat (nat i))"

subsection \<open>Exceptions\<close>

text \<open>
  The instances of Python's \<open>Exception\<close> class that can be raised inside the handlers.
  The first three are raised by the libraries the handlers call and carry the text of
  \<open>str(e)\<close> as the library made it; the others are raised by the interpreter for an
  attribute access or a subscript that fails.
\<close>

datatype subscript = Key string | Idx int

datatype exn =
    HTTPException string
  | RequestException string
  | JSONDecodeError string
  | AttributeError string string
  | KeyError subscript
  | IndexError string
  | TypeError string

abbreviation apos :: string where
  "apos \<equiv> [CHR 0x27]"

text \<open>
  \<open>str(e)\<close>. A \<open>KeyError\<close> prints the \<open>repr\<close> of its key: the key in single quotes for
  the str keys the handlers subscript with (plain identifiers, nothing to escape), the
  decimal digits for an int.
\<close>

fun str_exn :: "exn \<Rightarrow> string" where
  "str_exn (HTTPException m) = m"
| "str_exn (RequestException m) = m"
| "str_exn (JSONDecodeError m) = m"
| "str_exn (AttributeError t a) = apos @ t @ apos @ '' object has no attribute '' @ apos @ a @ apos"
| "str_exn (KeyError (Key k)) = apos @ k @ apos"
| "str_exn (KeyError (Idx i)) = str_int i"
| "str_exn (IndexError m) = m"
| "str_exn (TypeError m) = m"

subsection \<open>Dictionary access and subscripts\<close>

text \<open>\<open>d.get(k, default)\<close> on a dict.\<close>

definition dict_get :: "(string \<times> json) list \<Rightarrow> string \<Rightarrow> json \<Rightarrow> json" where
  "dict_get kvs k dflt = (case map_of kvs k of Some v \<Rightarrow> v | None \<Rightarrow> dflt)"

text \<open>
  \<open>data.get(k, default)\<close> on whatever \<open>request.json\<close> returned: only a dict has the
  method, every other value raises \<open>AttributeError\<close>.
\<close>

definition py_get :: "json \<Rightarrow> string \<Rightarrow> json \<Rightarrow> exn + json" where
  "py_get data k dflt =
     (case data of
        JObj kvs \<Rightarrow> Inr (dict_get kvs k dflt)
      | _ \<Rightarrow> Inl (AttributeError (type_name data) ''get''))"

text \<open>
  Indexing a sequence with an int: a negative index counts from the end, an index out of
  range has no element.
\<close>

definition py_index :: "'a list \<Rightarrow> int \<Rightarrow> 'a option" where
  "py_index xs i =
     (if 0 \<le> i \<and> i < int (length xs) then Some (xs ! nat i)
      else if i < 0 \<and> - int (length xs) \<le> i then Some (xs ! nat (int (length xs) + i))
      else None)"

text \<open>
  \<open>v[k]\<close>. The keys of a parsed JSON object are strs, so an int is never among them; a
  str indexed by an int gives the str of that one character. The messages are those of
  CPython 3.11 and later.
\<close>

fun py_getitem :: "json \<Rightarrow> subscript \<Rightarrow> exn + json" where
  "py_getitem (JObj kvs) (Key k) =
     (case map_of kvs k of Some v \<Rightarrow> Inr v | None \<Rightarrow> Inl (KeyError (Key k)))"
| "py_getitem (JObj kvs) (Idx i) = Inl (KeyError (Idx i))"
| "py_getitem (JArr xs) (Idx i) =
     (case py_index xs i of
        Some v \<Rightarrow> Inr v
      | None \<Rightarrow> Inl (IndexError ''list index out of range''))"
| "py_getitem (JArr xs) (Key k) =
     Inl (TypeError ''list indices must be integers or slices, not str'')"
| "py_getitem (JStr s) (Idx i) =
     (case py_index s i of
        Some c \<Rightarrow> Inr (JStr [c])
      | None \<Rightarrow> Inl (IndexError ''string index out of range''))"
| "py_getitem (JStr s) (Key k) =
     Inl (TypeError (''string indices must be integers, not '' @ apos @ ''str'' @ apos))"
| "py_getitem v k =
     Inl (TypeError (apos @ type_name v @ apos @ '' object is not subscriptable''))"

subsection \<open>Formatting a field into an f-string\<close>

text \<open>
  \<open>f"{v}"\<close> is \<open>format(v, "")\<close>: a str is inserted as it is, with no escaping; any other
  value is inserted as Python's \<open>str(v)\<close>, which the interpreter provides and the
  handlers take as given (\<open>str_of\<close>).
\<close>

definition py_format :: "(json \<Rightarrow> string) \<Rightarrow> json \<Rightarrow> string" where
  "py_format str_of v = (case v of JStr s \<Rightarrow> s | _ \<Rightarrow> str_of v)"

section \<open>The world around a handler\<close>

text \<open>
  One outbound \<open>requests.post(url, headers=..., json=...)\<close>, and what it returns: the
  status code, the body as text, and the outcome of \<open>response.json()\<close> on that body.
\<close>

record outbound_call =
  call_url :: string
  call_headers :: "(string \<times> string) list"
  call_json :: json

record upstream_response =
  status_code :: int
  text_body :: string
  json_body :: "exn + json"

text \<open>
  What a handler can change: the calls it has posted, in order, and the number of lines it
  has printed to the console (the debug output itself is not modelled).
\<close>

record world =
  posted :: "outbound_call list"
  printed :: nat

definition py_print :: "world \<Rightarrow> world" where
  "py_print w = w\<lparr>printed := Suc (printed w)\<rparr>"

text \<open>
  What a handler reads: the two credentials, fixed when the module is loaded; the
  interpreter's \<open>str\<close> on values that are not strs; and the provider behind
  \<open>requests.post\<close>, which answers a call with a response or raises.
\<close>

record env =
  CLAUDE_API_KEY :: string
  OPENAI_API_KEY :: string
  py_str :: "json \<Rightarrow> string"
  requests_post :: "outbound_call \<Rightarrow> exn + upstream_response"

text \<open>
  What a view function returns to Flask: \<open>return jsonify(d)\<close> is the body \<open>d\<close> with
  status 200, \<open>return jsonify(d), 500\<close> the body with status 500.
\<close>

record http_reply =
  reply_body :: json
  reply_status :: int

definition jsonify :: "(string \<times> json) list \<Rightarrow> json" where
  "jsonify d = JObj d"

definition flask_return :: "json \<Rightarrow> http_reply" where
  "flask_return body = \<lparr>reply_body = body, reply_status = 200\<rparr>"

definition flask_return_status :: "json \<Rightarrow> int \<Rightarrow> http_reply" where
  "flask_return_status body code = \<lparr>reply_body = body, reply_status = code\<rparr>"

section \<open>The handlers of LLM_proxy.py\<close>

subsection \<open>ping\<close>

text \<open>
  The view function takes no argument and reads nothing; the request being served and the
  environment are passed to it like to the other handlers.
\<close>

definition ping :: "env \<Rightarrow> exn + json \<Rightarrow> world \<Rightarrow> http_reply \<times> world" where
  "ping E request_json w =
     (flask_return (jsonify [(''success'', JBool True), (''message'', JStr ''Pong!'')]), w)"

subsection \<open>The prompt\<close>

text \<open>Line 83 of LLM_proxy.py, in \<open>proxy_to_claude\<close>.\<close>

definition claude_message :: "(json \<Rightarrow> string) \<Rightarrow> json \<Rightarrow> json \<Rightarrow> string" where
  "claude_message str_of question freemind_xml =
     ''Using the mind map represented by the following Freemind XML, please answer the following question: ''
       @ py_format str_of question @ ''\<newline>\<newline>'' @ py_format str_of freemind_xml"

text \<open>Line 152 of LLM_proxy.py, in \<open>proxy_to_chatgpt\<close>.\<close>

definition chatgpt_message :: "(json \<Rightarrow> string) \<Rightarrow> json \<Rightarrow> json \<Rightarrow> string" where
  "chatgpt_message str_of question freemind_xml =
     ''Using the mind map represented by the following Freemind XML, please answer the following question: ''
       @ py_format str_of question @ ''\<newline>\<newline>'' @ py_format str_of freemind_xml"

text \<open>Line 58 of claude_proxy.py, in its own \<open>proxy_to_claude\<close>.\<close>

definition claude_proxy_message :: "(json \<Rightarrow> string) \<Rightarrow> json \<Rightarrow> json \<Rightarrow> string" where
  "claude_proxy_message str_of question freemind_xml =
     ''Using the mind map represented by the following Freemind XML, please answer the following question: ''
       @ py_format str_of question @ ''\<newline>\<newline>'' @ py_format str_of freemind_xml"

subsection \<open>proxy_to_claude\<close>

text \<open>Lines 86 to 105: the URL, the headers and the payload of the call to Anthropic.\<close>

definition claude_call :: "env \<Rightarrow> string \<Rightarrow> outbound_call" where
  "claude_call E message =
     (let claude_url = ''https://api.anthropic.com/v1/messages'';
          headers = [(''Content-Type'', ''application/json''),
                     (''x-api-key'', CLAUDE_API_KEY E),
                     (''anthropic-version'', ''2023-06-01'')];
          payload = JObj [(''model'', JStr ''claude-3-haiku-20240307''),
                          (''max_tokens'', JInt 4000),
                          (''messages'', JArr [JObj [(''role'', JStr ''user''),
                                                     (''content'', JStr message)]])]
      in \<lparr>call_url = claude_url, call_headers = headers, call_json = payload\<rparr>)"

text \<open>Line 124: \<open>claude_response['content'][0]['text']\<close>, one subscript after the other.\<close>

definition claude_extract :: "json \<Rightarrow> exn + json" where
  "claude_extract claude_response =
     (case py_getitem claude_response (Key ''content'') of Inl e \<Rightarrow> Inl e | Inr content \<Rightarrow>
      (case py_getitem content (Idx 0) of Inl e \<Rightarrow> Inl e | Inr first \<Rightarrow>
         py_getitem first (Key ''text'')))"

text \<open>
  The body of the \<open>try\<close> block, lines 77 to 133. It ends with the reply it returns
  or with the exception that left it, and with the world as it was at that moment. The
  three prints before the call and the three after it only count lines.
\<close>

definition proxy_to_claude_try ::
  "env \<Rightarrow> exn + json \<Rightarrow> world \<Rightarrow> (exn + http_reply) \<times> world" where
  "proxy_to_claude_try E request_json w =
     (case request_json of Inl e \<Rightarrow> (Inl e, w) | Inr data \<Rightarrow>
      (case py_get data ''question'' (JStr '''') of Inl e \<Rightarrow> (Inl e, w) | Inr question \<Rightarrow>
       (case py_get data ''freemind_xml'' (JStr '''') of Inl e \<Rightarrow> (Inl e, w) | Inr freemind_xml \<Rightarrow>
        (let message = claude_message (py_str E) question freemind_xml;
             call = claude_call E message;
             w1 = py_print (py_print (py_print w));
             w2 = w1\<lparr>posted := posted w1 @ [call]\<rparr>
         in case requests_post E call of Inl e \<Rightarrow> (Inl e, w2) | Inr response \<Rightarrow>
            (let w3 = py_print (py_print (py_print w2))
             in if status_code response = 200 then
                  (case json_body response of Inl e \<Rightarrow> (Inl e, w3) | Inr claude_response \<Rightarrow>
                   (case claude_extract claude_response of Inl e \<Rightarrow> (Inl e, w3) | Inr t \<Rightarrow>
                      (Inr (flask_return (jsonify [(''success'', JBool True),
                                                   (''response'', t)])), w3)))
                else
                  (let error_response =
                         [(''success'', JBool False),
                          (''error'', JStr (''API error: '' @ str_int (status_code response))),
                          (''details'', JStr (text_body response))];
                       w4 = py_print w3
                   in (Inr (flask_return_status (jsonify error_response) 500), w4)))))))"

text \<open>
  The handler: the \<open>try\<close> block under its \<open>except Exception as e\<close> clause, lines 135
  to 139.
\<close>

definition proxy_to_claude :: "env \<Rightarrow> exn + json \<Rightarrow> world \<Rightarrow> http_reply \<times> world" where
  "proxy_to_claude E request_json w =
     (case proxy_to_claude_try E request_json w of
        (Inr reply, w') \<Rightarrow> (reply, w')
      | (Inl e, w') \<Rightarrow>
          (flask_return_status (jsonify [(''success'', JBool False),
                                         (''error'', JStr (str_exn e))]) 500, w'))"

subsection \<open>proxy_to_chatgpt\<close>

text \<open>Lines 155 to 173: the URL, the headers and the payload of the call to OpenAI.\<close>

definition chatgpt_call :: "env \<Rightarrow> string \<Rightarrow> outbound_call" where
  "chatgpt_call E message =
     (let openai_url = ''https://api.openai.com/v1/chat/completions'';
          headers = [(''Content-Type'', ''application/json''),
                     (''Authorization'', ''Bearer '' @ OPENAI_API_KEY E)];
          payload = JObj [(''model'', JStr ''gpt-3.5-turbo''),
                          (''max_tokens'', JInt 4000),
                          (''messages'', JArr [JObj [(''role'', JStr ''user''),
                                                     (''content'', JStr message)]])]
      in \<lparr>call_url = openai_url, call_headers = headers, call_json = payload\<rparr>)"

text \<open>
  Line 192: \<open>openai_response['choices'][0]['message']['content']\<close>, one subscript
  after the other.
\<close>

definition chatgpt_extract :: "json \<Rightarrow> exn + json" where
  "chatgpt_extract openai_response =
     (case py_getitem openai_response (Key ''choices'') of Inl e \<Rightarrow> Inl e | Inr choices \<Rightarrow>
      (case py_getitem choices (Idx 0) of Inl e \<Rightarrow> Inl e | Inr first \<Rightarrow>
       (case py_getitem first (Key ''message'') of Inl e \<Rightarrow> Inl e | Inr msg \<Rightarrow>
          py_getitem msg (Key ''content''))))"

text \<open>The body of the \<open>try\<close> block, lines 145 to 201.\<close>

definition proxy_to_chatgpt_try ::
  "env \<Rightarrow> exn + json \<Rightarrow> world \<Rightarrow> (exn + http_reply) \<times> world" where
  "proxy_to_chatgpt_try E request_json w =
     (case request_json of Inl e \<Rightarrow> (Inl e, w) | Inr data \<Rightarrow>
      (case py_get data ''question'' (JStr '''') of Inl e \<Rightarrow> (Inl e, w) | Inr question \<Rightarrow>
       (case py_get data ''freemind_xml'' (JStr '''') of Inl e \<Rightarrow> (Inl e, w) | Inr freemind_xml \<Rightarrow>
        (let message = chatgpt_message (py_str E) question freemind_xml;
             call = chatgpt_call E message;
             w1 = py_print (py_print (py_print w));
             w2 = w1\<lparr>posted := posted w1 @ [call]\<rparr>
         in case requests_post E call of Inl e \<Rightarrow> (Inl e, w2) | Inr response \<Rightarrow>
            (let w3 = py_print (py_print (py_print w2))
             in if status_code response = 200 then
                  (case json_body response of Inl e \<Rightarrow> (Inl e, w3) | Inr openai_response \<Rightarrow>
                   (case chatgpt_extract openai_response of Inl e \<Rightarrow> (Inl e, w3) | Inr t \<Rightarrow>
                      (Inr (flask_return (jsonify [(''success'', JBool True),
                                                   (''response'', t)])), w3)))
                else
                  (let error_response =
                         [(''success'', JBool False),
                          (''error'', JStr (''API error: '' @ str_int (status_code response))),
                          (''details'', JStr (text_body response))];
                       w4 = py_print w3
                   in (Inr (flask_return_status (jsonify error_response) 500), w4)))))))"

text \<open>The handler, with its \<open>except Exception as e\<close> clause, lines 203 to 207.\<close>

definition proxy_to_chatgpt :: "env \<Rightarrow> exn + json \<Rightarrow> world \<Rightarrow> http_reply \<times> world" where
  "proxy_to_chatgpt E request_json w =
     (case proxy_to_chatgpt_try E request_json w of
        (Inr reply, w') \<Rightarrow> (reply, w')
      | (Inl e, w') \<Rightarrow>
          (flask_return_status (jsonify [(''success'', JBool False),
                                         (''error'', JStr (str_exn e))]) 500, w'))"

section \<open>Vocabulary of the properties\<close>

text \<open>
  The call each handler makes for an inbound JSON object: the two fields read with their
  defaults, formatted into the prompt, wrapped into the provider's call.
\<close>

definition claude_request :: "env \<Rightarrow> (string \<times> json) list \<Rightarrow> outbound_call" where
  "claude_request E kvs =
     claude_call E (claude_message (py_str E)
       (dict_get kvs ''question'' (JStr '''')) (dict_get kvs ''freemind_xml'' (JStr '''')))"

definition chatgpt_request :: "env \<Rightarrow> (string \<times> json) list \<Rightarrow> outbound_call" where
  "chatgpt_request E kvs =
     chatgpt_call E (chatgpt_message (py_str E)
       (dict_get kvs ''question'' (JStr '''')) (dict_get kvs ''freemind_xml'' (JStr '''')))"

text \<open>The prompt inside a payload: \<open>messages[0].content\<close> of a one-message payload.\<close>

fun payload_prompt :: "json \<Rightarrow> json option" where
  "payload_prompt (JObj kvs) =
     (case map_of kvs ''messages'' of
        Some (JArr [JObj m]) \<Rightarrow> map_of m ''content''
      | _ \<Rightarrow> None)"
| "payload_prompt _ = None"

text \<open>
  The shape a provider's 200 body is expected to have, as a path into the JSON document:
  \<open>content[0].text\<close> for Anthropic, \<open>choices[0].message.content\<close> for OpenAI. The
  result is the value found at the end of the path, if the path exists.
\<close>

fun claude_text_span :: "json \<Rightarrow> json option" where
  "claude_text_span (JObj kvs) =
     (case map_of kvs ''content'' of
        Some (JArr (JObj item # rest)) \<Rightarrow> map_of item ''text''
      | _ \<Rightarrow> None)"
| "claude_text_span _ = None"

fun chatgpt_text_span :: "json \<Rightarrow> json option" where
  "chatgpt_text_span (JObj kvs) =
     (case map_of kvs ''choices'' of
        Some (JArr (JObj choice # rest)) \<Rightarrow>
          (case map_of choice ''message'' of
             Some (JObj msg) \<Rightarrow> map_of msg ''content''
           | _ \<Rightarrow> None)
      | _ \<Rightarrow> None)"
| "chatgpt_text_span _ = None"

text \<open>The two error envelopes and the success envelope, as replies.\<close>

definition exception_reply :: "exn \<Rightarrow> http_reply" where
  "exception_reply e =
     \<lparr>reply_body = JObj [(''success'', JBool False), (''error'', JStr (str_exn e))],
      reply_status = 500\<rparr>"

definition upstream_error_reply :: "upstream_response \<Rightarrow> http_reply" where
  "upstream_error_reply r =
     \<lparr>reply_body = JObj [(''success'', JBool False),
                         (''error'', JStr (''API error: '' @ str_int (status_code r))),
                         (''details'', JStr (text_body r))],
      reply_status = 500\<rparr>"

definition success_reply :: "json \<Rightarrow> http_reply" where
  "success_reply t =
     \<lparr>reply_body = JObj [(''success'', JBool True), (''response'', t)], reply_status = 200\<rparr>"

text \<open>
  The invariant of the envelope: a JSON object in which \<open>success = true\<close> comes with
  \<open>response\<close> and without \<open>error\<close> and \<open>details\<close>, and \<open>success = false\<close> comes
  with \<open>error\<close>.
\<close>

fun envelope_ok :: "json \<Rightarrow> bool" where
  "envelope_ok (JObj kvs) =
     ((map_of kvs ''success'' = Some (JBool True) \<or> map_of kvs ''success'' = Some (JBool False))
      \<and> (map_of kvs ''success'' = Some (JBool True) \<longrightarrow>
            map_of kvs ''response'' \<noteq> None \<and> map_of kvs ''error'' = None
              \<and> map_of kvs ''details'' = None)
      \<and> (map_of kvs ''success'' = Some (JBool False) \<longrightarrow> map_of kvs ''error'' \<noteq> None))"
| "envelope_ok _ = False"

text \<open>
  A provider's 200 response lacks the expected shape when its body is not JSON at all or
  when the path into it does not exist.
\<close>

definition lacks_claude_shape :: "upstream_response \<Rightarrow> bool" where
  "lacks_claude_shape r =
     (case json_body r of Inl e \<Rightarrow> True | Inr body \<Rightarrow> claude_text_span body = None)"

definition lacks_chatgpt_shape :: "upstream_response \<Rightarrow> bool" where
  "lacks_chatgpt_shape r =
     (case json_body r of Inl e \<Rightarrow> True | Inr body \<Rightarrow> chatgpt_text_span body = None)"

text \<open>The exceptions a failed subscript raises.\<close>

fun subscript_error :: "exn \<Rightarrow> bool" where
  "subscript_error (KeyError k) = True"
| "subscript_error (IndexError m) = True"
| "subscript_error (TypeError m) = True"
| "subscript_error e = False"

section \<open>Sample inputs\<close>

text \<open>
  A request like the one of test_chatgpt_api.py, a fresh world, and providers that answer
  well, reject the credential, answer 200 with an empty JSON object or with a body that is
  not JSON, refuse the connection,
  or cannot be reached with a transport exception that carries no message (the text of
  \<open>requests.exceptions.Timeout()\<close> raised without arguments is empty).
\<close>

definition sample_request :: "(string \<times> json) list" where
  "sample_request = [(''question'', JStr ''What is the capital of France?''),
                     (''freemind_xml'', JStr ''<map/>'')]"

definition world0 :: world where
  "world0 = \<lparr>posted = [], printed = 0\<rparr>"

definition claude_ok :: upstream_response where
  "claude_ok =
     \<lparr>status_code = 200, text_body = ''(json)'',
      json_body = Inr (JObj [(''content'', JArr [JObj [(''type'', JStr ''text''),
                                                       (''text'', JStr ''Paris'')]])])\<rparr>"

definition openai_ok :: upstream_response where
  "openai_ok =
     \<lparr>status_code = 200, text_body = ''(json)'',
      json_body = Inr (JObj [(''choices'', JArr [JObj [(''message'',
                    JObj [(''role'', JStr ''assistant''), (''content'', JStr ''Paris'')])]])])\<rparr>"

definition unauthorized :: upstream_response where
  "unauthorized =
     \<lparr>status_code = 401, text_body = ''invalid key'',
      json_body = Inl (JSONDecodeError ''Expecting value: line 1 column 1 (char 0)'')\<rparr>"

definition empty_object :: upstream_response where
  "empty_object = \<lparr>status_code = 200, text_body = ''{}'', json_body = Inr (JObj [])\<rparr>"

definition not_json :: upstream_response where
  "not_json =
     \<lparr>status_code = 200, text_body = ''<html></html>'',
      json_body = Inl (JSONDecodeError ''Expecting value: line 1 column 1 (char 0)'')\<rparr>"

definition provider_ok :: "outbound_call \<Rightarrow> exn + upstream_response" where
  "provider_ok c =
     (if call_url c = ''https://api.anthropic.com/v1/messages'' then Inr claude_ok
      else Inr openai_ok)"

definition provider_rejects :: "outbound_call \<Rightarrow> exn + upstream_response" where
  "provider_rejects c = Inr unauthorized"

definition provider_malformed :: "outbound_call \<Rightarrow> exn + upstream_response" where
  "provider_malformed c = Inr empty_object"

definition provider_not_json :: "outbound_call \<Rightarrow> exn + upstream_response" where
  "provider_not_json c = Inr not_json"

definition provider_unreachable :: "outbound_call \<Rightarrow> exn + upstream_response" where
  "provider_unreachable c = Inl (RequestException '''')"

definition provider_refuses :: "outbound_call \<Rightarrow> exn + upstream_response" where
  "provider_refuses c = Inl (RequestException ''Connection refused'')"

definition stub_env :: "(outbound_call \<Rightarrow> exn + upstream_response) \<Rightarrow> env" where
  "stub_env post =
     \<lparr>CLAUDE_API_KEY = ''key-a'', OPENAI_API_KEY = ''key-o'', py_str = type_name,
      requests_post = post\<rparr>"

section \<open>Properties\<close>

subsection \<open>Auxiliary facts\<close>

lemmas handler_defs =
  proxy_to_claude_def proxy_to_claude_try_def proxy_to_chatgpt_def proxy_to_chatgpt_try_def
  py_get_def claude_request_def chatgpt_request_def Let_def
  flask_return_def flask_return_status_def jsonify_def py_print_def

lemma claude_posted:
  "posted (snd (proxy_to_claude E (Inr (JObj kvs)) w)) = posted w @ [claude_request E kvs]"
  by (simp add: handler_defs split: sum.splits)

lemma chatgpt_posted:
  "posted (snd (proxy_to_chatgpt E (Inr (JObj kvs)) w)) = posted w @ [chatgpt_request E kvs]"
  by (simp add: handler_defs split: sum.splits)

lemma claude_request_prompt:
  "payload_prompt (call_json (claude_request E kvs)) =
     Some (JStr (claude_message (py_str E)
       (dict_get kvs ''question'' (JStr '''')) (dict_get kvs ''freemind_xml'' (JStr ''''))))"
  by (simp add: claude_request_def claude_call_def)

lemma chatgpt_request_prompt:
  "payload_prompt (call_json (chatgpt_request E kvs)) =
     Some (JStr (chatgpt_message (py_str E)
       (dict_get kvs ''question'' (JStr '''')) (dict_get kvs ''freemind_xml'' (JStr ''''))))"
  by (simp add: chatgpt_request_def chatgpt_call_def)

subsection \<open>The prompt\<close>

text \<open>
  Claim C1. For every pair of strings \<open>question\<close> and \<open>freemind_xml\<close> in the inbound
  request, each of the two handlers posts exactly one call, and the prompt in its payload
  is the fixed instruction, then the question, then two newlines, then the XML, with
  nothing escaped or changed. This holds whatever the provider answers.
\<close>

theorem prompt_is_plain_concatenation:
  assumes "map_of kvs ''question'' = Some (JStr question)"
      and "map_of kvs ''freemind_xml'' = Some (JStr freemind_xml)"
  shows "map (\<lambda>c. payload_prompt (call_json c))
           (drop (length (posted w)) (posted (snd (proxy_to_claude E (Inr (JObj kvs)) w))))
         = [Some (JStr (''Using the mind map represented by the following Freemind XML, please answer the following question: ''
                         @ question @ ''\<newline>\<newline>'' @ freemind_xml))]
       \<and> map (\<lambda>c. payload_prompt (call_json c))
           (drop (length (posted w)) (posted (snd (proxy_to_chatgpt E (Inr (JObj kvs)) w))))
         = [Some (JStr (''Using the mind map represented by the following Freemind XML, please answer the following question: ''
                         @ question @ ''\<newline>\<newline>'' @ freemind_xml))]"
proof -
  have q: "dict_get kvs ''question'' (JStr '''') = JStr question"
    and x: "dict_get kvs ''freemind_xml'' (JStr '''') = JStr freemind_xml"
    using assms by (simp_all add: dict_get_def)
  have "payload_prompt (call_json (claude_request E kvs)) =
          Some (JStr (''Using the mind map represented by the following Freemind XML, please answer the following question: ''
                        @ question @ ''\<newline>\<newline>'' @ freemind_xml))"
    unfolding claude_request_prompt q x by (simp add: claude_message_def py_format_def)
  moreover have "payload_prompt (call_json (chatgpt_request E kvs)) =
          Some (JStr (''Using the mind map represented by the following Freemind XML, please answer the following question: ''
                        @ question @ ''\<newline>\<newline>'' @ freemind_xml))"
    unfolding chatgpt_request_prompt q x by (simp add: chatgpt_message_def py_format_def)
  ultimately show ?thesis
    by (simp add: claude_posted chatgpt_posted)
qed

theorem prompt_is_plain_concatenation_witness:
  "map_of sample_request ''question'' = Some (JStr ''What is the capital of France?'')
   \<and> map_of sample_request ''freemind_xml'' = Some (JStr ''<map/>'')
   \<and> map (\<lambda>c. payload_prompt (call_json c))
         (drop (length (posted world0))
            (posted (snd (proxy_to_claude (stub_env provider_ok) (Inr (JObj sample_request)) world0))))
       = [Some (JStr ''Using the mind map represented by the following Freemind XML, please answer the following question: What is the capital of France?\<newline>\<newline><map/>'')]
   \<and> map (\<lambda>c. payload_prompt (call_json c))
         (drop (length (posted world0))
            (posted (snd (proxy_to_chatgpt (stub_env provider_ok) (Inr (JObj sample_request)) world0))))
       = [Some (JStr ''Using the mind map represented by the following Freemind XML, please answer the following question: What is the capital of France?\<newline>\<newline><map/>'')]"
  using prompt_is_plain_concatenation
    [where kvs = sample_request and question = "''What is the capital of France?''"
       and freemind_xml = "''<map/>''" and w = world0 and E = "stub_env provider_ok"]
  by (simp add: sample_request_def)

text \<open>
  Claim C10. For every pair of strings, the prompt built by the Claude handler of
  LLM_proxy.py, the one built by its ChatGPT handler and the one built by the handler of
  claude_proxy.py are the same string, whatever the interpreter's \<open>str\<close> does on other
  values: on strings the three builders are the same function.
\<close>

theorem prompt_builders_agree:
  "claude_message s1 (JStr question) (JStr freemind_xml)
     = chatgpt_message s2 (JStr question) (JStr freemind_xml)
   \<and> chatgpt_message s2 (JStr question) (JStr freemind_xml)
     = claude_proxy_message s3 (JStr question) (JStr freemind_xml)
   \<and> claude_message s1 (JStr question) (JStr freemind_xml)
     = claude_proxy_message s3 (JStr question) (JStr freemind_xml)"
  by (simp add: claude_message_def chatgpt_message_def claude_proxy_message_def py_format_def)

subsection \<open>The outbound call\<close>

text \<open>
  Claim C8. For every inbound JSON object, each handler posts exactly one call. Its payload
  has the model, \<open>max_tokens\<close> 4000 and a list of exactly one message, of role user, with
  the prompt as content; the model is a constant, not read from the request. The Claude
  handler sends the headers \<open>x-api-key\<close> with the credential and \<open>anthropic-version\<close>
  2023-06-01, the ChatGPT handler sends \<open>Authorization\<close> with Bearer and the credential.
\<close>

theorem outbound_call_is_fixed_shape:
  "posted (snd (proxy_to_claude E (Inr (JObj kvs)) w)) = posted w @
     [\<lparr>call_url = ''https://api.anthropic.com/v1/messages'',
       call_headers = [(''Content-Type'', ''application/json''),
                       (''x-api-key'', CLAUDE_API_KEY E),
                       (''anthropic-version'', ''2023-06-01'')],
       call_json = JObj [(''model'', JStr ''claude-3-haiku-20240307''),
                         (''max_tokens'', JInt 4000),
                         (''messages'', JArr [JObj [(''role'', JStr ''user''),
                            (''content'', JStr (claude_message (py_str E)
                                (dict_get kvs ''question'' (JStr ''''))
                                (dict_get kvs ''freemind_xml'' (JStr ''''))))]])]\<rparr>]
   \<and> posted (snd (proxy_to_chatgpt E (Inr (JObj kvs)) w)) = posted w @
     [\<lparr>call_url = ''https://api.openai.com/v1/chat/completions'',
       call_headers = [(''Content-Type'', ''application/json''),
                       (''Authorization'', ''Bearer '' @ OPENAI_API_KEY E)],
       call_json = JObj [(''model'', JStr ''gpt-3.5-turbo''),
                         (''max_tokens'', JInt 4000),
                         (''messages'', JArr [JObj [(''role'', JStr ''user''),
                            (''content'', JStr (chatgpt_message (py_str E)
                                (dict_get kvs ''question'' (JStr ''''))
                                (dict_get kvs ''freemind_xml'' (JStr ''''))))]])]\<rparr>]"
  by (simp add: claude_posted chatgpt_posted claude_request_def chatgpt_request_def
      claude_call_def chatgpt_call_def)

subsection \<open>ping\<close>

text \<open>
  Claim C9. Every invocation of ping returns the envelope with \<open>success\<close> true and the
  message Pong!, with status 200, whatever the request and the environment are, and leaves
  the world as it was: nothing posted, nothing printed.
\<close>

theorem ping_is_static:
  "ping E request_json w =
     (\<lparr>reply_body = JObj [(''success'', JBool True), (''message'', JStr ''Pong!'')],
       reply_status = 200\<rparr>, w)"
  by (simp add: ping_def flask_return_def jsonify_def)

subsection \<open>What the handlers reply\<close>

lemma claude_catch:
  "proxy_to_claude_try E req w = (Inl e, w') \<Longrightarrow>
   proxy_to_claude E req w = (exception_reply e, w')"
  by (simp add: proxy_to_claude_def exception_reply_def flask_return_status_def jsonify_def)

lemma chatgpt_catch:
  "proxy_to_chatgpt_try E req w = (Inl e, w') \<Longrightarrow>
   proxy_to_chatgpt E req w = (exception_reply e, w')"
  by (simp add: proxy_to_chatgpt_def exception_reply_def flask_return_status_def jsonify_def)

lemma claude_reply_raise:
  "requests_post E (claude_request E kvs) = Inl e \<Longrightarrow>
   fst (proxy_to_claude E (Inr (JObj kvs)) w) = exception_reply e"
  by (simp add: handler_defs exception_reply_def)

lemma chatgpt_reply_raise:
  "requests_post E (chatgpt_request E kvs) = Inl e \<Longrightarrow>
   fst (proxy_to_chatgpt E (Inr (JObj kvs)) w) = exception_reply e"
  by (simp add: handler_defs exception_reply_def)

lemma claude_reply_non200:
  "requests_post E (claude_request E kvs) = Inr r \<Longrightarrow> status_code r \<noteq> 200 \<Longrightarrow>
   fst (proxy_to_claude E (Inr (JObj kvs)) w) = upstream_error_reply r"
  by (simp add: handler_defs upstream_error_reply_def)

lemma chatgpt_reply_non200:
  "requests_post E (chatgpt_request E kvs) = Inr r \<Longrightarrow> status_code r \<noteq> 200 \<Longrightarrow>
   fst (proxy_to_chatgpt E (Inr (JObj kvs)) w) = upstream_error_reply r"
  by (simp add: handler_defs upstream_error_reply_def)

lemma claude_reply_200:
  "requests_post E (claude_request E kvs) = Inr r \<Longrightarrow> status_code r = 200 \<Longrightarrow>
   fst (proxy_to_claude E (Inr (JObj kvs)) w) =
     (case json_body r of
        Inl e \<Rightarrow> exception_reply e
      | Inr body \<Rightarrow>
          (case claude_extract body of
             Inl e \<Rightarrow> exception_reply e
           | Inr t \<Rightarrow> success_reply t))"
  by (simp add: handler_defs exception_reply_def success_reply_def split: sum.splits)

lemma chatgpt_reply_200:
  "requests_post E (chatgpt_request E kvs) = Inr r \<Longrightarrow> status_code r = 200 \<Longrightarrow>
   fst (proxy_to_chatgpt E (Inr (JObj kvs)) w) =
     (case json_body r of
        Inl e \<Rightarrow> exception_reply e
      | Inr body \<Rightarrow>
          (case chatgpt_extract body of
             Inl e \<Rightarrow> exception_reply e
           | Inr t \<Rightarrow> success_reply t))"
  by (simp add: handler_defs exception_reply_def success_reply_def split: sum.splits)

text \<open>The subscripts succeed exactly on the bodies that have the shape.\<close>

lemma claude_extract_shape:
  "claude_text_span body = Some t \<Longrightarrow> claude_extract body = Inr t"
  by (cases body)
    (auto simp: claude_extract_def py_index_def split: option.splits json.splits list.splits)

lemma claude_extract_no_shape:
  "claude_text_span body = None \<Longrightarrow> \<exists>e. claude_extract body = Inl e"
  by (cases body)
    (auto simp: claude_extract_def py_index_def
          split: option.splits json.splits list.splits sum.splits)

lemma chatgpt_extract_shape:
  "chatgpt_text_span body = Some t \<Longrightarrow> chatgpt_extract body = Inr t"
  by (cases body)
    (auto simp: chatgpt_extract_def py_index_def split: option.splits json.splits list.splits)

lemma chatgpt_extract_no_shape:
  "chatgpt_text_span body = None \<Longrightarrow> \<exists>e. chatgpt_extract body = Inl e"
  by (cases body)
    (auto simp: chatgpt_extract_def py_index_def
          split: option.splits json.splits list.splits sum.splits)

lemma claude_malformed_folded:
  assumes "requests_post E (claude_request E kvs) = Inr r" and "status_code r = 200"
      and "lacks_claude_shape r"
  shows "\<exists>e. fst (proxy_to_claude E (Inr (JObj kvs)) w) = exception_reply e"
proof (cases "json_body r")
  case (Inl e)
  then show ?thesis using claude_reply_200 [OF assms(1,2)] by auto
next
  case (Inr body)
  with assms(3) have "claude_text_span body = None"
    by (simp add: lacks_claude_shape_def)
  then obtain e where "claude_extract body = Inl e"
    using claude_extract_no_shape by blast
  with Inr show ?thesis using claude_reply_200 [OF assms(1,2)] by auto
qed

lemma chatgpt_malformed_folded:
  assumes "requests_post E (chatgpt_request E kvs) = Inr r" and "status_code r = 200"
      and "lacks_chatgpt_shape r"
  shows "\<exists>e. fst (proxy_to_chatgpt E (Inr (JObj kvs)) w) = exception_reply e"
proof (cases "json_body r")
  case (Inl e)
  then show ?thesis using chatgpt_reply_200 [OF assms(1,2)] by auto
next
  case (Inr body)
  with assms(3) have "chatgpt_text_span body = None"
    by (simp add: lacks_chatgpt_shape_def)
  then obtain e where "chatgpt_extract body = Inl e"
    using chatgpt_extract_no_shape by blast
  with Inr show ?thesis using chatgpt_reply_200 [OF assms(1,2)] by auto
qed

lemma str_int_401: "str_int 401 = ''401''"
  by (simp add: str_int_def str_nat.simps digit_char_def)

text \<open>
  Claim C2. When the provider answers with a status other than 200, each handler replies
  with status 500 and the body of \<open>success\<close> false, \<open>error\<close> the text API error: and the
  provider's status in decimal, and \<open>details\<close> the provider's raw body. The status of the
  reply is 500 whatever the provider's status is.
\<close>

theorem upstream_error_is_remapped_to_500:
  "(requests_post E (claude_request E kvs) = Inr r \<and> status_code r \<noteq> 200 \<longrightarrow>
      fst (proxy_to_claude E (Inr (JObj kvs)) w) =
        \<lparr>reply_body = JObj [(''success'', JBool False),
                            (''error'', JStr (''API error: '' @ str_int (status_code r))),
                            (''details'', JStr (text_body r))],
         reply_status = 500\<rparr>)
   \<and> (requests_post E (chatgpt_request E kvs) = Inr r' \<and> status_code r' \<noteq> 200 \<longrightarrow>
      fst (proxy_to_chatgpt E (Inr (JObj kvs)) w) =
        \<lparr>reply_body = JObj [(''success'', JBool False),
                            (''error'', JStr (''API error: '' @ str_int (status_code r'))),
                            (''details'', JStr (text_body r'))],
         reply_status = 500\<rparr>)"
  using claude_reply_non200 [of E kvs r w] chatgpt_reply_non200 [of E kvs r' w]
  by (simp add: upstream_error_reply_def)

theorem upstream_error_is_remapped_to_500_witness:
  "requests_post (stub_env provider_rejects) (claude_request (stub_env provider_rejects) sample_request)
     = Inr unauthorized
   \<and> requests_post (stub_env provider_rejects) (chatgpt_request (stub_env provider_rejects) sample_request)
     = Inr unauthorized
   \<and> status_code unauthorized \<noteq> 200
   \<and> fst (proxy_to_claude (stub_env provider_rejects) (Inr (JObj sample_request)) world0) =
        \<lparr>reply_body = JObj [(''success'', JBool False),
                            (''error'', JStr ''API error: 401''),
                            (''details'', JStr ''invalid key'')],
         reply_status = 500\<rparr>
   \<and> fst (proxy_to_chatgpt (stub_env provider_rejects) (Inr (JObj sample_request)) world0) =
        \<lparr>reply_body = JObj [(''success'', JBool False),
                            (''error'', JStr ''API error: 401''),
                            (''details'', JStr ''invalid key'')],
         reply_status = 500\<rparr>"
  using upstream_error_is_remapped_to_500
    [where E = "stub_env provider_rejects" and kvs = sample_request and r = unauthorized
       and r' = unauthorized and w = world0]
  by (simp add: stub_env_def provider_rejects_def unauthorized_def str_int_401)

text \<open>
  Claim C3. When the provider answers 200 with a body of the expected shape, each handler
  replies with status 200 and the body of \<open>success\<close> true and \<open>response\<close> the value found
  at \<open>content[0].text\<close> (Claude) or at \<open>choices[0].message.content\<close> (ChatGPT), as it
  stands in the provider's body.
\<close>

theorem well_formed_answer_is_relayed_verbatim:
  "(requests_post E (claude_request E kvs) = Inr r \<and> status_code r = 200
      \<and> json_body r = Inr body \<and> claude_text_span body = Some t \<longrightarrow>
      fst (proxy_to_claude E (Inr (JObj kvs)) w) =
        \<lparr>reply_body = JObj [(''success'', JBool True), (''response'', t)],
         reply_status = 200\<rparr>)
   \<and> (requests_post E (chatgpt_request E kvs) = Inr r' \<and> status_code r' = 200
      \<and> json_body r' = Inr body' \<and> chatgpt_text_span body' = Some t' \<longrightarrow>
      fst (proxy_to_chatgpt E (Inr (JObj kvs)) w) =
        \<lparr>reply_body = JObj [(''success'', JBool True), (''response'', t')],
         reply_status = 200\<rparr>)"
  using claude_reply_200 [of E kvs r w] claude_extract_shape [of body t]
    chatgpt_reply_200 [of E kvs r' w] chatgpt_extract_shape [of body' t']
  by (simp add: success_reply_def)

theorem well_formed_answer_is_relayed_verbatim_witness:
  "requests_post (stub_env provider_ok) (claude_request (stub_env provider_ok) sample_request)
     = Inr claude_ok
   \<and> status_code claude_ok = 200
   \<and> json_body claude_ok
       = Inr (JObj [(''content'', JArr [JObj [(''type'', JStr ''text''), (''text'', JStr ''Paris'')]])])
   \<and> claude_text_span
        (JObj [(''content'', JArr [JObj [(''type'', JStr ''text''), (''text'', JStr ''Paris'')]])])
       = Some (JStr ''Paris'')
   \<and> fst (proxy_to_claude (stub_env provider_ok) (Inr (JObj sample_request)) world0) =
        \<lparr>reply_body = JObj [(''success'', JBool True), (''response'', JStr ''Paris'')],
         reply_status = 200\<rparr>
   \<and> requests_post (stub_env provider_ok) (chatgpt_request (stub_env provider_ok) sample_request)
     = Inr openai_ok
   \<and> status_code openai_ok = 200
   \<and> json_body openai_ok
       = Inr (JObj [(''choices'', JArr [JObj [(''message'',
                JObj [(''role'', JStr ''assistant''), (''content'', JStr ''Paris'')])]])])
   \<and> chatgpt_text_span
        (JObj [(''choices'', JArr [JObj [(''message'',
                JObj [(''role'', JStr ''assistant''), (''content'', JStr ''Paris'')])]])])
       = Some (JStr ''Paris'')
   \<and> fst (proxy_to_chatgpt (stub_env provider_ok) (Inr (JObj sample_request)) world0) =
        \<lparr>reply_body = JObj [(''success'', JBool True), (''response'', JStr ''Paris'')],
         reply_status = 200\<rparr>"
  using well_formed_answer_is_relayed_verbatim
    [where E = "stub_env provider_ok" and kvs = sample_request and w = world0
       and r = claude_ok and r' = openai_ok
       and body = "JObj [(''content'', JArr [JObj [(''type'', JStr ''text''), (''text'', JStr ''Paris'')]])]"
       and body' = "JObj [(''choices'', JArr [JObj [(''message'',
                JObj [(''role'', JStr ''assistant''), (''content'', JStr ''Paris'')])]])]"
       and t = "JStr ''Paris''" and t' = "JStr ''Paris''"]
  by (simp add: stub_env_def provider_ok_def claude_ok_def openai_ok_def
      claude_request_def chatgpt_request_def claude_call_def chatgpt_call_def)

subsection \<open>Exceptions\<close>

text \<open>
  Claim C4, as amended. Every exception that leaves the \<open>try\<close> block of a handler is
  caught: the handler replies with status 500 and the body of \<open>success\<close> false and
  \<open>error\<close> the text \<open>str(e)\<close> of the exception, as it is, and nothing is propagated.
  So it is when reading the inbound JSON fails and when the outbound call raises. The text
  is the one the exception carries; the handler adds nothing to it, so it is empty when
  the exception carries none.
\<close>

theorem exception_becomes_error_envelope:
  "(proxy_to_claude_try E req w = (Inl e, w') \<longrightarrow>
      proxy_to_claude E req w =
        (\<lparr>reply_body = JObj [(''success'', JBool False), (''error'', JStr (str_exn e))],
          reply_status = 500\<rparr>, w'))
   \<and> (proxy_to_chatgpt_try E req w = (Inl e, w'') \<longrightarrow>
      proxy_to_chatgpt E req w =
        (\<lparr>reply_body = JObj [(''success'', JBool False), (''error'', JStr (str_exn e))],
          reply_status = 500\<rparr>, w''))
   \<and> proxy_to_claude E (Inl e') w =
        (\<lparr>reply_body = JObj [(''success'', JBool False), (''error'', JStr (str_exn e'))],
          reply_status = 500\<rparr>, w)
   \<and> proxy_to_chatgpt E (Inl e') w =
        (\<lparr>reply_body = JObj [(''success'', JBool False), (''error'', JStr (str_exn e'))],
          reply_status = 500\<rparr>, w)
   \<and> (requests_post E (claude_request E kvs) = Inl e \<longrightarrow>
      fst (proxy_to_claude E (Inr (JObj kvs)) w) =
        \<lparr>reply_body = JObj [(''success'', JBool False), (''error'', JStr (str_exn e))],
         reply_status = 500\<rparr>)
   \<and> (requests_post E (chatgpt_request E kvs) = Inl e \<longrightarrow>
      fst (proxy_to_chatgpt E (Inr (JObj kvs)) w) =
        \<lparr>reply_body = JObj [(''success'', JBool False), (''error'', JStr (str_exn e))],
         reply_status = 500\<rparr>)"
proof -
  have inbound_claude: "proxy_to_claude_try E (Inl e') w = (Inl e', w)"
    by (simp add: proxy_to_claude_try_def)
  have inbound_chatgpt: "proxy_to_chatgpt_try E (Inl e') w = (Inl e', w)"
    by (simp add: proxy_to_chatgpt_try_def)
  show ?thesis
    using claude_catch [of E req w e w'] chatgpt_catch [of E req w e w'']
      claude_catch [OF inbound_claude] chatgpt_catch [OF inbound_chatgpt]
      claude_reply_raise [of E kvs e w] chatgpt_reply_raise [of E kvs e w]
    by (simp add: exception_reply_def)
qed

theorem exception_becomes_error_envelope_witness:
  "proxy_to_claude_try (stub_env provider_refuses) (Inr (JObj sample_request)) world0
     = (Inl (RequestException ''Connection refused''),
        \<lparr>posted = [claude_request (stub_env provider_refuses) sample_request], printed = 3\<rparr>)
   \<and> proxy_to_chatgpt_try (stub_env provider_refuses) (Inr (JObj sample_request)) world0
     = (Inl (RequestException ''Connection refused''),
        \<lparr>posted = [chatgpt_request (stub_env provider_refuses) sample_request], printed = 3\<rparr>)
   \<and> requests_post (stub_env provider_refuses)
        (claude_request (stub_env provider_refuses) sample_request)
     = Inl (RequestException ''Connection refused'')
   \<and> requests_post (stub_env provider_refuses)
        (chatgpt_request (stub_env provider_refuses) sample_request)
     = Inl (RequestException ''Connection refused'')
   \<and> proxy_to_claude (stub_env provider_refuses) (Inr (JObj sample_request)) world0 =
        (\<lparr>reply_body = JObj [(''success'', JBool False), (''error'', JStr ''Connection refused'')],
          reply_status = 500\<rparr>,
         \<lparr>posted = [claude_request (stub_env provider_refuses) sample_request], printed = 3\<rparr>)
   \<and> proxy_to_chatgpt (stub_env provider_refuses) (Inr (JObj sample_request)) world0 =
        (\<lparr>reply_body = JObj [(''success'', JBool False), (''error'', JStr ''Connection refused'')],
          reply_status = 500\<rparr>,
         \<lparr>posted = [chatgpt_request (stub_env provider_refuses) sample_request], printed = 3\<rparr>)
   \<and> proxy_to_claude (stub_env provider_refuses) (Inl (HTTPException ''400 Bad Request'')) world0 =
        (\<lparr>reply_body = JObj [(''success'', JBool False), (''error'', JStr ''400 Bad Request'')],
          reply_status = 500\<rparr>, world0)
   \<and> proxy_to_chatgpt (stub_env provider_refuses) (Inl (HTTPException ''400 Bad Request'')) world0 =
        (\<lparr>reply_body = JObj [(''success'', JBool False), (''error'', JStr ''400 Bad Request'')],
          reply_status = 500\<rparr>, world0)"
proof -
  have raised: "requests_post (stub_env provider_refuses) c = Inl (RequestException ''Connection refused'')"
    for c
    by (simp add: stub_env_def provider_refuses_def)
  have try_claude:
    "proxy_to_claude_try (stub_env provider_refuses) (Inr (JObj sample_request)) world0
       = (Inl (RequestException ''Connection refused''),
          \<lparr>posted = [claude_request (stub_env provider_refuses) sample_request], printed = 3\<rparr>)"
    by (simp add: proxy_to_claude_try_def py_get_def claude_request_def Let_def py_print_def
        raised world0_def numeral_3_eq_3)
  have try_chatgpt:
    "proxy_to_chatgpt_try (stub_env provider_refuses) (Inr (JObj sample_request)) world0
       = (Inl (RequestException ''Connection refused''),
          \<lparr>posted = [chatgpt_request (stub_env provider_refuses) sample_request], printed = 3\<rparr>)"
    by (simp add: proxy_to_chatgpt_try_def py_get_def chatgpt_request_def Let_def py_print_def
        raised world0_def numeral_3_eq_3)
  show ?thesis
    using exception_becomes_error_envelope
      [where E = "stub_env provider_refuses" and req = "Inr (JObj sample_request)"
         and w = world0 and e = "RequestException ''Connection refused''"
         and e' = "HTTPException ''400 Bad Request''" and kvs = sample_request
         and w' = "\<lparr>posted = [claude_request (stub_env provider_refuses) sample_request],
                     printed = 3\<rparr>"
         and w'' = "\<lparr>posted = [chatgpt_request (stub_env provider_refuses) sample_request],
                      printed = 3\<rparr>"]
      try_claude try_chatgpt raised
    by simp
qed

text \<open>
  Claim C4 as the specification states it asks for a non-empty message. A transport
  exception that carries no message gives the envelope an empty \<open>error\<close>, in both
  handlers.
\<close>

theorem error_message_may_be_empty:
  "requests_post (stub_env provider_unreachable)
       (claude_request (stub_env provider_unreachable) sample_request)
     = Inl (RequestException '''')
   \<and> fst (proxy_to_claude (stub_env provider_unreachable) (Inr (JObj sample_request)) world0) =
        \<lparr>reply_body = JObj [(''success'', JBool False), (''error'', JStr '''')],
         reply_status = 500\<rparr>
   \<and> fst (proxy_to_chatgpt (stub_env provider_unreachable) (Inr (JObj sample_request)) world0) =
        \<lparr>reply_body = JObj [(''success'', JBool False), (''error'', JStr '''')],
         reply_status = 500\<rparr>"
  by (simp add: handler_defs stub_env_def provider_unreachable_def)

lemma claude_try_200:
  "requests_post E (claude_request E kvs) = Inr r \<Longrightarrow> status_code r = 200 \<Longrightarrow>
   fst (proxy_to_claude_try E (Inr (JObj kvs)) w) =
     (case json_body r of
        Inl e \<Rightarrow> Inl e
      | Inr body \<Rightarrow>
          (case claude_extract body of
             Inl e \<Rightarrow> Inl e
           | Inr t \<Rightarrow> Inr (success_reply t)))"
  by (simp add: handler_defs success_reply_def split: sum.splits)

lemma chatgpt_try_200:
  "requests_post E (chatgpt_request E kvs) = Inr r \<Longrightarrow> status_code r = 200 \<Longrightarrow>
   fst (proxy_to_chatgpt_try E (Inr (JObj kvs)) w) =
     (case json_body r of
        Inl e \<Rightarrow> Inl e
      | Inr body \<Rightarrow>
          (case chatgpt_extract body of
             Inl e \<Rightarrow> Inl e
           | Inr t \<Rightarrow> Inr (success_reply t)))"
  by (simp add: handler_defs success_reply_def split: sum.splits)

text \<open>A subscript chain that fails raises one of the three subscript errors.\<close>

lemma py_getitem_error: "py_getitem v k = Inl e \<Longrightarrow> subscript_error e"
  by (cases "(v, k)" rule: py_getitem.cases) (auto split: option.splits)

lemma claude_extract_error: "claude_extract body = Inl e \<Longrightarrow> subscript_error e"
  by (auto simp: claude_extract_def split: sum.splits dest: py_getitem_error)

lemma chatgpt_extract_error: "chatgpt_extract body = Inl e \<Longrightarrow> subscript_error e"
  by (auto simp: chatgpt_extract_def split: sum.splits dest: py_getitem_error)

lemma claude_malformed_raised:
  assumes "requests_post E (claude_request E kvs) = Inr r" and "status_code r = 200"
      and "lacks_claude_shape r"
  shows "\<exists>e. (json_body r = Inl e
               \<or> (\<exists>body. json_body r = Inr body \<and> claude_extract body = Inl e
                     \<and> subscript_error e))
            \<and> fst (proxy_to_claude_try E (Inr (JObj kvs)) w) = Inl e
            \<and> fst (proxy_to_claude E (Inr (JObj kvs)) w) = exception_reply e"
proof (cases "json_body r")
  case (Inl e)
  then show ?thesis
    using claude_try_200 [OF assms(1,2), of w] claude_reply_200 [OF assms(1,2), of w] by auto
next
  case (Inr body)
  with assms(3) have "claude_text_span body = None"
    by (simp add: lacks_claude_shape_def)
  then obtain e where e: "claude_extract body = Inl e"
    using claude_extract_no_shape by blast
  then have "subscript_error e" by (rule claude_extract_error)
  with Inr e show ?thesis
    using claude_try_200 [OF assms(1,2), of w] claude_reply_200 [OF assms(1,2), of w] by auto
qed

lemma chatgpt_malformed_raised:
  assumes "requests_post E (chatgpt_request E kvs) = Inr r" and "status_code r = 200"
      and "lacks_chatgpt_shape r"
  shows "\<exists>e. (json_body r = Inl e
               \<or> (\<exists>body. json_body r = Inr body \<and> chatgpt_extract body = Inl e
                     \<and> subscript_error e))
            \<and> fst (proxy_to_chatgpt_try E (Inr (JObj kvs)) w) = Inl e
            \<and> fst (proxy_to_chatgpt E (Inr (JObj kvs)) w) = exception_reply e"
proof (cases "json_body r")
  case (Inl e)
  then show ?thesis
    using chatgpt_try_200 [OF assms(1,2), of w] chatgpt_reply_200 [OF assms(1,2), of w] by auto
next
  case (Inr body)
  with assms(3) have "chatgpt_text_span body = None"
    by (simp add: lacks_chatgpt_shape_def)
  then obtain e where e: "chatgpt_extract body = Inl e"
    using chatgpt_extract_no_shape by blast
  then have "subscript_error e" by (rule chatgpt_extract_error)
  with Inr e show ?thesis
    using chatgpt_try_200 [OF assms(1,2), of w] chatgpt_reply_200 [OF assms(1,2), of w] by auto
qed

text \<open>
  Claim C5, as amended. When the provider answers 200 with a body that lacks the expected
  shape (it is not JSON, or the path \<open>content[0].text\<close>, for ChatGPT
  \<open>choices[0].message.content\<close>, does not exist in it), the extraction fails with an
  exception: the one \<open>response.json()\<close> raised, or the \<open>KeyError\<close>, \<open>IndexError\<close> or
  \<open>TypeError\<close> raised by the subscript that failed. That very exception leaves the
  \<open>try\<close> block and is caught like any other: the handler replies with status 500 and
  the envelope of \<open>success\<close> false and \<open>error\<close> the text of that exception.
\<close>

theorem malformed_answer_becomes_error_envelope:
  "(requests_post E (claude_request E kvs) = Inr r \<and> status_code r = 200
      \<and> lacks_claude_shape r \<longrightarrow>
      (\<exists>e. (json_body r = Inl e
              \<or> (\<exists>body. json_body r = Inr body \<and> claude_extract body = Inl e
                    \<and> subscript_error e))
           \<and> fst (proxy_to_claude_try E (Inr (JObj kvs)) w) = Inl e
           \<and> fst (proxy_to_claude E (Inr (JObj kvs)) w) =
               \<lparr>reply_body = JObj [(''success'', JBool False), (''error'', JStr (str_exn e))],
                reply_status = 500\<rparr>))
   \<and> (requests_post E (chatgpt_request E kvs) = Inr r' \<and> status_code r' = 200
      \<and> lacks_chatgpt_shape r' \<longrightarrow>
      (\<exists>e. (json_body r' = Inl e
              \<or> (\<exists>body. json_body r' = Inr body \<and> chatgpt_extract body = Inl e
                    \<and> subscript_error e))
           \<and> fst (proxy_to_chatgpt_try E (Inr (JObj kvs)) w) = Inl e
           \<and> fst (proxy_to_chatgpt E (Inr (JObj kvs)) w) =
               \<lparr>reply_body = JObj [(''success'', JBool False), (''error'', JStr (str_exn e))],
                reply_status = 500\<rparr>))"
  using claude_malformed_raised [of E kvs r w] chatgpt_malformed_raised [of E kvs r' w]
  by (simp add: exception_reply_def)

theorem malformed_answer_becomes_error_envelope_witness:
  "requests_post (stub_env provider_malformed)
       (claude_request (stub_env provider_malformed) sample_request) = Inr empty_object
   \<and> requests_post (stub_env provider_malformed)
       (chatgpt_request (stub_env provider_malformed) sample_request) = Inr empty_object
   \<and> status_code empty_object = 200
   \<and> lacks_claude_shape empty_object
   \<and> lacks_chatgpt_shape empty_object
   \<and> claude_extract (JObj []) = Inl (KeyError (Key ''content''))
   \<and> chatgpt_extract (JObj []) = Inl (KeyError (Key ''choices''))
   \<and> fst (proxy_to_claude_try (stub_env provider_malformed) (Inr (JObj sample_request)) world0)
       = Inl (KeyError (Key ''content''))
   \<and> fst (proxy_to_chatgpt_try (stub_env provider_malformed) (Inr (JObj sample_request)) world0)
       = Inl (KeyError (Key ''choices''))
   \<and> fst (proxy_to_claude (stub_env provider_malformed) (Inr (JObj sample_request)) world0) =
        \<lparr>reply_body = JObj [(''success'', JBool False),
                            (''error'', JStr (apos @ ''content'' @ apos))],
         reply_status = 500\<rparr>
   \<and> fst (proxy_to_chatgpt (stub_env provider_malformed) (Inr (JObj sample_request)) world0) =
        \<lparr>reply_body = JObj [(''success'', JBool False),
                            (''error'', JStr (apos @ ''choices'' @ apos))],
         reply_status = 500\<rparr>
   \<and> requests_post (stub_env provider_not_json)
       (claude_request (stub_env provider_not_json) sample_request) = Inr not_json
   \<and> requests_post (stub_env provider_not_json)
       (chatgpt_request (stub_env provider_not_json) sample_request) = Inr not_json
   \<and> status_code not_json = 200
   \<and> lacks_claude_shape not_json
   \<and> lacks_chatgpt_shape not_json
   \<and> fst (proxy_to_claude_try (stub_env provider_not_json) (Inr (JObj sample_request)) world0)
       = Inl (JSONDecodeError ''Expecting value: line 1 column 1 (char 0)'')
   \<and> fst (proxy_to_chatgpt (stub_env provider_not_json) (Inr (JObj sample_request)) world0) =
        \<lparr>reply_body = JObj [(''success'', JBool False),
                            (''error'', JStr ''Expecting value: line 1 column 1 (char 0)'')],
         reply_status = 500\<rparr>"
proof -
  have post: "requests_post (stub_env provider_malformed) c = Inr empty_object" for c
    by (simp add: stub_env_def provider_malformed_def)
  have post': "requests_post (stub_env provider_not_json) c = Inr not_json" for c
    by (simp add: stub_env_def provider_not_json_def)
  have body: "json_body empty_object = Inr (JObj [])" and status: "status_code empty_object = 200"
    by (simp_all add: empty_object_def)
  have body': "json_body not_json = Inl (JSONDecodeError ''Expecting value: line 1 column 1 (char 0)'')"
    and status': "status_code not_json = 200"
    by (simp_all add: not_json_def)
  have lacks: "lacks_claude_shape empty_object" "lacks_chatgpt_shape empty_object"
    by (simp_all add: lacks_claude_shape_def lacks_chatgpt_shape_def empty_object_def)
  have lacks': "lacks_claude_shape not_json" "lacks_chatgpt_shape not_json"
    by (simp_all add: lacks_claude_shape_def lacks_chatgpt_shape_def not_json_def)
  have ex1: "claude_extract (JObj []) = Inl (KeyError (Key ''content''))"
    by (simp add: claude_extract_def)
  have ex2: "chatgpt_extract (JObj []) = Inl (KeyError (Key ''choices''))"
    by (simp add: chatgpt_extract_def)
  note malformed = malformed_answer_becomes_error_envelope
      [where E = "stub_env provider_malformed" and kvs = sample_request and w = world0
         and r = empty_object and r' = empty_object]
  note html = malformed_answer_becomes_error_envelope
      [where E = "stub_env provider_not_json" and kvs = sample_request and w = world0
         and r = not_json and r' = not_json]
  have c1: "fst (proxy_to_claude_try (stub_env provider_malformed) (Inr (JObj sample_request)) world0)
              = Inl (KeyError (Key ''content''))
            \<and> fst (proxy_to_claude (stub_env provider_malformed) (Inr (JObj sample_request)) world0) =
               \<lparr>reply_body = JObj [(''success'', JBool False),
                                   (''error'', JStr (apos @ ''content'' @ apos))],
                reply_status = 500\<rparr>"
    using malformed post status lacks by (auto simp: body ex1)
  have c2: "fst (proxy_to_chatgpt_try (stub_env provider_malformed) (Inr (JObj sample_request)) world0)
              = Inl (KeyError (Key ''choices''))
            \<and> fst (proxy_to_chatgpt (stub_env provider_malformed) (Inr (JObj sample_request)) world0) =
               \<lparr>reply_body = JObj [(''success'', JBool False),
                                   (''error'', JStr (apos @ ''choices'' @ apos))],
                reply_status = 500\<rparr>"
    using malformed post status lacks by (auto simp: body ex2)
  have c3: "fst (proxy_to_claude_try (stub_env provider_not_json) (Inr (JObj sample_request)) world0)
              = Inl (JSONDecodeError ''Expecting value: line 1 column 1 (char 0)'')"
    using html post' status' lacks' by (auto simp: body')
  have c4: "fst (proxy_to_chatgpt (stub_env provider_not_json) (Inr (JObj sample_request)) world0) =
               \<lparr>reply_body = JObj [(''success'', JBool False),
                                   (''error'', JStr ''Expecting value: line 1 column 1 (char 0)'')],
                reply_status = 500\<rparr>"
    using html post' status' lacks' by (auto simp: body')
  from post post' status status' lacks lacks' ex1 ex2 c1 c2 c3 c4 show ?thesis
    by blast
qed

text \<open>
  Claim C5 as the specification states it says that some such response is left unhandled.
  There is none, for either handler; the empty JSON object, for one, comes back as the
  envelope of the \<open>KeyError\<close> of the first subscript.
\<close>

theorem no_malformed_answer_is_unhandled:
  "\<not> (\<exists>E kvs r w. requests_post E (claude_request E kvs) = Inr r \<and> status_code r = 200
          \<and> lacks_claude_shape r
          \<and> (\<forall>e. fst (proxy_to_claude E (Inr (JObj kvs)) w) \<noteq> exception_reply e))
   \<and> \<not> (\<exists>E kvs r w. requests_post E (chatgpt_request E kvs) = Inr r \<and> status_code r = 200
          \<and> lacks_chatgpt_shape r
          \<and> (\<forall>e. fst (proxy_to_chatgpt E (Inr (JObj kvs)) w) \<noteq> exception_reply e))
   \<and> fst (proxy_to_claude (stub_env provider_malformed) (Inr (JObj sample_request)) world0) =
        \<lparr>reply_body = JObj [(''success'', JBool False),
                            (''error'', JStr (apos @ ''content'' @ apos))],
         reply_status = 500\<rparr>
   \<and> fst (proxy_to_chatgpt (stub_env provider_malformed) (Inr (JObj sample_request)) world0) =
        \<lparr>reply_body = JObj [(''success'', JBool False),
                            (''error'', JStr (apos @ ''choices'' @ apos))],
         reply_status = 500\<rparr>"
proof -
  have a: "\<not> (\<exists>E kvs r w. requests_post E (claude_request E kvs) = Inr r \<and> status_code r = 200
          \<and> lacks_claude_shape r
          \<and> (\<forall>e. fst (proxy_to_claude E (Inr (JObj kvs)) w) \<noteq> exception_reply e))"
    using claude_malformed_folded by blast
  have b: "\<not> (\<exists>E kvs r w. requests_post E (chatgpt_request E kvs) = Inr r \<and> status_code r = 200
          \<and> lacks_chatgpt_shape r
          \<and> (\<forall>e. fst (proxy_to_chatgpt E (Inr (JObj kvs)) w) \<noteq> exception_reply e))"
    using chatgpt_malformed_folded by blast
  have c: "fst (proxy_to_claude (stub_env provider_malformed) (Inr (JObj sample_request)) world0) =
        \<lparr>reply_body = JObj [(''success'', JBool False),
                            (''error'', JStr (apos @ ''content'' @ apos))],
         reply_status = 500\<rparr>"
    by (simp add: handler_defs stub_env_def provider_malformed_def empty_object_def
        claude_extract_def)
  have d: "fst (proxy_to_chatgpt (stub_env provider_malformed) (Inr (JObj sample_request)) world0) =
        \<lparr>reply_body = JObj [(''success'', JBool False),
                            (''error'', JStr (apos @ ''choices'' @ apos))],
         reply_status = 500\<rparr>"
    by (simp add: handler_defs stub_env_def provider_malformed_def empty_object_def
        chatgpt_extract_def)
  from a b c d show ?thesis by blast
qed

subsection \<open>Missing fields\<close>

lemma claude_missing_question:
  "map_of kvs ''question'' = None \<Longrightarrow>
   proxy_to_claude E (Inr (JObj kvs)) w
     = proxy_to_claude E (Inr (JObj ((''question'', JStr '''') # kvs))) w"
  by (simp add: handler_defs dict_get_def)

lemma claude_missing_freemind_xml:
  "map_of kvs ''freemind_xml'' = None \<Longrightarrow>
   proxy_to_claude E (Inr (JObj kvs)) w
     = proxy_to_claude E (Inr (JObj ((''freemind_xml'', JStr '''') # kvs))) w"
  by (simp add: handler_defs dict_get_def)

lemma chatgpt_missing_question:
  "map_of kvs ''question'' = None \<Longrightarrow>
   proxy_to_chatgpt E (Inr (JObj kvs)) w
     = proxy_to_chatgpt E (Inr (JObj ((''question'', JStr '''') # kvs))) w"
  by (simp add: handler_defs dict_get_def)

lemma chatgpt_missing_freemind_xml:
  "map_of kvs ''freemind_xml'' = None \<Longrightarrow>
   proxy_to_chatgpt E (Inr (JObj kvs)) w
     = proxy_to_chatgpt E (Inr (JObj ((''freemind_xml'', JStr '''') # kvs))) w"
  by (simp add: handler_defs dict_get_def)

text \<open>
  Claim C6. A request object that lacks \<open>question\<close> or \<open>freemind_xml\<close> is never rejected
  for it: each handler does exactly what it does for the same object with the empty string
  in that field, reply and world alike, and it posts its call to the provider whichever
  fields the object has.
\<close>

theorem missing_field_is_empty_string:
  "(map_of kvs ''question'' = None \<longrightarrow>
      proxy_to_claude E (Inr (JObj kvs)) w
        = proxy_to_claude E (Inr (JObj ((''question'', JStr '''') # kvs))) w
      \<and> proxy_to_chatgpt E (Inr (JObj kvs)) w
        = proxy_to_chatgpt E (Inr (JObj ((''question'', JStr '''') # kvs))) w)
   \<and> (map_of kvs ''freemind_xml'' = None \<longrightarrow>
      proxy_to_claude E (Inr (JObj kvs)) w
        = proxy_to_claude E (Inr (JObj ((''freemind_xml'', JStr '''') # kvs))) w
      \<and> proxy_to_chatgpt E (Inr (JObj kvs)) w
        = proxy_to_chatgpt E (Inr (JObj ((''freemind_xml'', JStr '''') # kvs))) w)
   \<and> posted (snd (proxy_to_claude E (Inr (JObj kvs)) w)) = posted w @ [claude_request E kvs]
   \<and> posted (snd (proxy_to_chatgpt E (Inr (JObj kvs)) w)) = posted w @ [chatgpt_request E kvs]"
  using claude_missing_question [of kvs E w] claude_missing_freemind_xml [of kvs E w]
    chatgpt_missing_question [of kvs E w] chatgpt_missing_freemind_xml [of kvs E w]
  by (simp add: claude_posted chatgpt_posted)

theorem missing_field_is_empty_string_witness:
  "map_of ([] :: (string \<times> json) list) ''question'' = None
   \<and> map_of ([] :: (string \<times> json) list) ''freemind_xml'' = None
   \<and> proxy_to_claude (stub_env provider_ok) (Inr (JObj [])) world0
       = proxy_to_claude (stub_env provider_ok) (Inr (JObj [(''question'', JStr '''')])) world0
   \<and> proxy_to_chatgpt (stub_env provider_ok) (Inr (JObj [])) world0
       = proxy_to_chatgpt (stub_env provider_ok) (Inr (JObj [(''freemind_xml'', JStr '''')])) world0
   \<and> fst (proxy_to_claude (stub_env provider_ok) (Inr (JObj [])) world0) =
        \<lparr>reply_body = JObj [(''success'', JBool True), (''response'', JStr ''Paris'')],
         reply_status = 200\<rparr>
   \<and> map (\<lambda>c. payload_prompt (call_json c))
         (posted (snd (proxy_to_claude (stub_env provider_ok) (Inr (JObj [])) world0)))
       = [Some (JStr ''Using the mind map represented by the following Freemind XML, please answer the following question: \<newline>\<newline>'')]"
proof -
  have reply: "fst (proxy_to_claude (stub_env provider_ok) (Inr (JObj [])) world0) =
        \<lparr>reply_body = JObj [(''success'', JBool True), (''response'', JStr ''Paris'')],
         reply_status = 200\<rparr>"
    by (simp add: handler_defs stub_env_def provider_ok_def claude_ok_def claude_call_def
        claude_extract_def py_index_def)
  have prompt: "payload_prompt (call_json (claude_request (stub_env provider_ok) [])) =
        Some (JStr ''Using the mind map represented by the following Freemind XML, please answer the following question: \<newline>\<newline>'')"
    by (simp add: claude_request_prompt claude_message_def dict_get_def py_format_def)
  note inst = missing_field_is_empty_string
      [where kvs = "[]" and E = "stub_env provider_ok" and w = world0]
  have none: "map_of ([] :: (string \<times> json) list) ''question'' = None"
    "map_of ([] :: (string \<times> json) list) ''freemind_xml'' = None"
    by simp_all
  from inst none have same_claude:
    "proxy_to_claude (stub_env provider_ok) (Inr (JObj [])) world0
       = proxy_to_claude (stub_env provider_ok) (Inr (JObj [(''question'', JStr '''')])) world0"
    by blast
  from inst none have same_chatgpt:
    "proxy_to_chatgpt (stub_env provider_ok) (Inr (JObj [])) world0
       = proxy_to_chatgpt (stub_env provider_ok) (Inr (JObj [(''freemind_xml'', JStr '''')])) world0"
    by blast
  from inst have "posted (snd (proxy_to_claude (stub_env provider_ok) (Inr (JObj [])) world0))
       = posted world0 @ [claude_request (stub_env provider_ok) []]"
    by blast
  then have sent: "map (\<lambda>c. payload_prompt (call_json c))
         (posted (snd (proxy_to_claude (stub_env provider_ok) (Inr (JObj [])) world0)))
       = [Some (JStr ''Using the mind map represented by the following Freemind XML, please answer the following question: \<newline>\<newline>'')]"
    using prompt by (simp add: world0_def)
  from none same_claude same_chatgpt reply sent show ?thesis
    by blast
qed

subsection \<open>The envelope\<close>

lemma claude_envelope: "envelope_ok (reply_body (fst (proxy_to_claude E req w)))"
  by (simp add: handler_defs split: sum.splits json.splits)

lemma chatgpt_envelope: "envelope_ok (reply_body (fst (proxy_to_chatgpt E req w)))"
  by (simp add: handler_defs split: sum.splits json.splits)

text \<open>
  Claim C7. Whatever the request, the provider and the world, the body each handler returns
  is a JSON object that satisfies the invariant of the envelope: \<open>success\<close> is a bool; if
  it is true, \<open>response\<close> is present and \<open>error\<close> and \<open>details\<close> are absent; if it is
  false, \<open>error\<close> is present.
\<close>

theorem every_envelope_satisfies_invariant:
  "envelope_ok (reply_body (fst (proxy_to_claude E req w)))
   \<and> envelope_ok (reply_body (fst (proxy_to_chatgpt E req w)))"
  by (simp add: claude_envelope chatgpt_envelope)

theorem every_envelope_satisfies_invariant_witness:
  "envelope_ok (reply_body (fst (proxy_to_claude (stub_env provider_ok) (Inr (JObj sample_request)) world0)))
   \<and> envelope_ok (reply_body (fst (proxy_to_chatgpt (stub_env provider_ok) (Inr (JObj sample_request)) world0)))
   \<and> reply_body (fst (proxy_to_claude (stub_env provider_ok) (Inr (JObj sample_request)) world0))
       = JObj [(''success'', JBool True), (''response'', JStr ''Paris'')]
   \<and> reply_body (fst (proxy_to_chatgpt (stub_env provider_rejects) (Inr (JObj sample_request)) world0))
       = JObj [(''success'', JBool False), (''error'', JStr ''API error: 401''),
               (''details'', JStr ''invalid key'')]
   \<and> envelope_ok (JObj [(''success'', JBool False), (''error'', JStr ''API error: 401''),
               (''details'', JStr ''invalid key'')])
   \<and> \<not> envelope_ok (JObj [(''success'', JBool True), (''error'', JStr ''both'')])"
proof -
  have ok: "reply_body (fst (proxy_to_claude (stub_env provider_ok) (Inr (JObj sample_request)) world0))
       = JObj [(''success'', JBool True), (''response'', JStr ''Paris'')]"
    by (simp add: handler_defs stub_env_def provider_ok_def claude_ok_def claude_call_def
        claude_extract_def py_index_def)
  have rejected: "reply_body (fst (proxy_to_chatgpt (stub_env provider_rejects) (Inr (JObj sample_request)) world0))
       = JObj [(''success'', JBool False), (''error'', JStr ''API error: 401''),
               (''details'', JStr ''invalid key'')]"
    by (simp add: handler_defs stub_env_def provider_rejects_def unauthorized_def str_int_401)
  show ?thesis
    using every_envelope_satisfies_invariant
      [where E = "stub_env provider_ok" and req = "Inr (JObj sample_request)" and w = world0]
      ok rejected
    by simp
qed

end
